theory Spec2Isabelle
  imports Main
begin

section \<open>Type-tag ordering lookup of \<^verbatim>\<open>sorting/compare_lookup.py\<close>\<close>

text \<open>
  The module derives, for every ordered pair of the sixteen ion type tags, the relation
  a tuple comparator has to apply. Type tags are Python integers, so they are modelled
  as \<^typ>\<open>int\<close>; the relation names are Python strings and stay strings here.
  The tag \<^verbatim>\<open>INT\<close> is written \<open>INT_tag\<close>, since \<open>INT\<close> is the binder of
  an indexed intersection in HOL.
\<close>

subsection \<open>Type tags\<close>

definition NULL :: int where "NULL = 0x00"
definition BOOL :: int where "BOOL = 0x01"
definition UINT :: int where "UINT = 0x02"
definition INT_tag :: int where "INT_tag = 0x03"
definition FLOAT :: int where "FLOAT = 0x04"
definition DECIMAL :: int where "DECIMAL = 0x05"
definition TIMESTAMP :: int where "TIMESTAMP = 0x06"
definition SYMBOL :: int where "SYMBOL = 0x07"
definition STRING :: int where "STRING = 0x08"
definition CLOB :: int where "CLOB = 0x09"
definition BLOB :: int where "BLOB = 0x0a"
definition LIST :: int where "LIST = 0x0b"
definition SEXP :: int where "SEXP = 0x0c"
definition STRUCT :: int where "STRUCT = 0x0d"
definition ANNOTATION :: int where "ANNOTATION = 0x0e"
definition RESERVED :: int where "RESERVED = 0x0f"

lemmas tag_defs =
  NULL_def BOOL_def UINT_def INT_tag_def FLOAT_def DECIMAL_def TIMESTAMP_def SYMBOL_def
  STRING_def CLOB_def BLOB_def LIST_def SEXP_def STRUCT_def ANNOTATION_def RESERVED_def

subsection \<open>The strict-less table\<close>

text \<open>
  \<^verbatim>\<open>strict_less_lookup\<close> is a dictionary from a tag to the set of tags that sort
  strictly after it. The dictionary is a partial map; the rows are written in the order
  of the source.
\<close>

definition strict_less_lookup :: "int \<rightharpoonup> int set" where
  "strict_less_lookup = [
     BOOL \<mapsto> {UINT, INT_tag, FLOAT, DECIMAL, TIMESTAMP, SYMBOL, STRING, CLOB, BLOB, LIST, SEXP, STRUCT},
     UINT \<mapsto> {TIMESTAMP, SYMBOL, STRING, CLOB, BLOB, LIST, SEXP, STRUCT},
     INT_tag \<mapsto> {UINT, TIMESTAMP, SYMBOL, STRING, CLOB, BLOB, LIST, SEXP, STRUCT},
     FLOAT \<mapsto> {TIMESTAMP, SYMBOL, STRING, CLOB, BLOB, LIST, SEXP, STRUCT},
     DECIMAL \<mapsto> {TIMESTAMP, SYMBOL, STRING, CLOB, BLOB, LIST, SEXP, STRUCT},
     TIMESTAMP \<mapsto> {SYMBOL, STRING, CLOB, BLOB, LIST, SEXP, STRUCT},
     STRING \<mapsto> {STRING, CLOB, BLOB, LIST, SEXP, STRUCT},
     CLOB \<mapsto> {LIST, SEXP, STRUCT},
     BLOB \<mapsto> {LIST, SEXP, STRUCT},
     LIST \<mapsto> {STRUCT},
     SEXP \<mapsto> {STRUCT}]"

subsection \<open>Relation names\<close>

definition Less :: string where "Less = ''alwaysLess''"
definition Greater :: string where "Greater = ''alwaysGreater''"
definition CompareSameType :: string where "CompareSameType = ''compareSameType''"
definition CompareDifferentTypes :: string where
  "CompareDifferentTypes = ''compareDifferentTypes''"
definition Invalid :: string where "Invalid = ''unsupportedRelation''"

lemmas relation_defs =
  Less_def Greater_def CompareSameType_def CompareDifferentTypes_def Invalid_def

subsection \<open>Predicates on tags\<close>

definition not_supported :: "int \<Rightarrow> bool" where
  "not_supported t \<longleftrightarrow> t \<in> set [SYMBOL, SEXP, STRUCT, ANNOTATION, RESERVED]"

definition numeric :: "int \<Rightarrow> bool" where
  "numeric t \<longleftrightarrow> t \<in> set [UINT, INT_tag, FLOAT, DECIMAL]"

subsection \<open>Looking a pair up\<close>

text \<open>
  The subscript \<^verbatim>\<open>strict_less_lookup[type1]\<close> raises \<^verbatim>\<open>KeyError\<close> for a tag
  without a row. The exception is a value of the model, and \<^verbatim>\<open>strict_less_aux\<close>
  is the handler that turns it into \<^verbatim>\<open>False\<close>.
\<close>

datatype py_error = KeyError

definition strict_less_getitem :: "int \<Rightarrow> py_error + int set" where
  "strict_less_getitem type1 =
     (case strict_less_lookup type1 of None \<Rightarrow> Inl KeyError | Some s \<Rightarrow> Inr s)"

definition strict_less_aux :: "int \<Rightarrow> int \<Rightarrow> bool" where
  "strict_less_aux type1 type2 =
     (case strict_less_getitem type1 of
        Inr s \<Rightarrow> type2 \<in> s
      | Inl KeyError \<Rightarrow> False)"

definition relation :: "int \<Rightarrow> int \<Rightarrow> string" where
  "relation type1 type2 =
     (if not_supported type1 \<or> not_supported type2 then Invalid
      else if type1 = type2 then CompareSameType
      else if strict_less_aux type1 type2 then Less
      else if strict_less_aux type2 type1 then Greater
      else CompareDifferentTypes)"

subsection \<open>The whole grid\<close>

text \<open>
  \<^verbatim>\<open>relations()\<close> is a generator over two nested \<^verbatim>\<open>range(16)\<close> loops; the model
  is the list of the values it yields, in the order it yields them.
\<close>

definition relations :: "string list" where
  "relations = [relation type1 type2. type1 \<leftarrow> [0..15], type2 \<leftarrow> [0..15]]"

section \<open>Auxiliary facts\<close>

lemmas lookup_defs = strict_less_aux_def strict_less_getitem_def strict_less_lookup_def

text \<open>The five relation names are pairwise different strings.\<close>

lemma relation_names_distinct:
  "distinct [Less, Greater, CompareSameType, CompareDifferentTypes, Invalid]"
  by (simp add: relation_defs)

text \<open>The handler of \<^verbatim>\<open>KeyError\<close> makes the lookup a plain membership test.\<close>

lemma strict_less_aux_iff:
  "strict_less_aux type1 type2 \<longleftrightarrow>
     (case strict_less_lookup type1 of None \<Rightarrow> False | Some s \<Rightarrow> type2 \<in> s)"
  by (simp add: strict_less_aux_def strict_less_getitem_def split: option.split)

text \<open>Between two different tags the table never holds both directions.\<close>

lemma strict_less_aux_asym:
  "strict_less_aux a b \<Longrightarrow> a \<noteq> b \<Longrightarrow> \<not> strict_less_aux b a"
  by (auto simp: strict_less_aux_iff strict_less_lookup_def tag_defs split: if_splits)

text \<open>Which branch of \<^verbatim>\<open>relation\<close> produces which name.\<close>

lemma relation_unsupported:
  "not_supported a \<or> not_supported b \<Longrightarrow> relation a b = Invalid"
  by (simp add: relation_def)

lemma relation_Invalid_iff:
  "relation a b = Invalid \<longleftrightarrow> not_supported a \<or> not_supported b"
  by (auto simp: relation_def relation_defs)

lemma relation_CompareSameType_iff:
  "relation a b = CompareSameType \<longleftrightarrow> \<not> not_supported a \<and> \<not> not_supported b \<and> a = b"
  by (auto simp: relation_def relation_defs)

lemma relation_Less_iff:
  "relation a b = Less \<longleftrightarrow>
     \<not> not_supported a \<and> \<not> not_supported b \<and> a \<noteq> b \<and> strict_less_aux a b"
  by (auto simp: relation_def relation_defs)

lemma relation_Greater_iff:
  "relation a b = Greater \<longleftrightarrow>
     \<not> not_supported a \<and> \<not> not_supported b \<and> a \<noteq> b \<and>
     \<not> strict_less_aux a b \<and> strict_less_aux b a"
  by (auto simp: relation_def relation_defs)

lemma relation_CompareDifferentTypes_iff:
  "relation a b = CompareDifferentTypes \<longleftrightarrow>
     \<not> not_supported a \<and> \<not> not_supported b \<and> a \<noteq> b \<and>
     \<not> strict_less_aux a b \<and> \<not> strict_less_aux b a"
  by (auto simp: relation_def relation_defs)

text \<open>
  Indexing a concatenation of rows of one length: entry \<open>i * n + j\<close> is entry \<open>j\<close> of
  row \<open>i\<close>.
\<close>

lemma nth_concat_rows:
  "(\<And>x. x \<in> set xs \<Longrightarrow> length (f x) = n) \<Longrightarrow> i < length xs \<Longrightarrow> j < n \<Longrightarrow>
     concat (map f xs) ! (i * n + j) = f (xs ! i) ! j"
proof (induction xs arbitrary: i)
  case Nil
  then show ?case by simp
next
  case (Cons x xs)
  show ?case
  proof (cases i)
    case 0
    with Cons.prems show ?thesis by (simp add: nth_append)
  next
    case (Suc k)
    with Cons.prems have "k < length xs" by simp
    with Cons.IH Cons.prems have "concat (map f xs) ! (k * n + j) = f (xs ! k) ! j" by simp
    with Suc Cons.prems show ?thesis by (simp add: nth_append)
  qed
qed

lemma relations_rows:
  "relations = concat (map (\<lambda>type1. map (relation type1) [0..15]) [0..15])"
  by (simp add: relations_def)

lemma length_relations: "length relations = 256"
  by (simp add: relations_rows length_concat comp_def sum_list_triv)

lemma relations_nth:
  assumes "0 \<le> type1" "type1 \<le> 15" "0 \<le> type2" "type2 \<le> 15"
  shows "relations ! nat (type1 * 16 + type2) = relation type1 type2"
proof -
  have idx: "nat (type1 * 16 + type2) = nat type1 * 16 + nat type2"
    using assms by (simp add: nat_add_distrib nat_mult_distrib)
  have "concat (map (\<lambda>t. map (relation t) [0..15]) [0..15]) ! (nat type1 * 16 + nat type2)
      = map (relation ([0..15] ! nat type1)) [0..15] ! nat type2"
    using assms by (intro nth_concat_rows) simp_all
  also have "\<dots> = relation type1 type2"
    using assms by simp
  finally show ?thesis by (simp add: relations_rows idx)
qed

section \<open>Comparing two numeric tags\<close>

text \<open>
  C1, as stated: two different tags of \<^verbatim>\<open>UINT\<close>, \<^verbatim>\<open>INT\<close>, \<^verbatim>\<open>FLOAT\<close>, \<^verbatim>\<open>DECIMAL\<close>
  always relate as \<^verbatim>\<open>CompareDifferentTypes\<close>. The table refutes it: the row of
  \<^verbatim>\<open>INT\<close> lists \<^verbatim>\<open>UINT\<close>, so \<^verbatim>\<open>relation(UINT, INT)\<close> takes the fourth branch and
  is \<^verbatim>\<open>Greater\<close>.
\<close>

theorem relation_numeric_counterexample:
  "numeric UINT \<and> numeric INT_tag \<and> UINT \<noteq> INT_tag \<and>
   strict_less_aux INT_tag UINT \<and>
   relation UINT INT_tag = Greater \<and> relation UINT INT_tag \<noteq> CompareDifferentTypes"
  by (simp add: numeric_def relation_def not_supported_def lookup_defs tag_defs relation_defs)

text \<open>
  C1, amended: for two different numeric tags, \<^verbatim>\<open>relation\<close> is \<^verbatim>\<open>Less\<close> for the pair
  (\<^verbatim>\<open>INT\<close>, \<^verbatim>\<open>UINT\<close>), \<^verbatim>\<open>Greater\<close> for the pair (\<^verbatim>\<open>UINT\<close>, \<^verbatim>\<open>INT\<close>) and
  \<^verbatim>\<open>CompareDifferentTypes\<close> for every other pair; \<^verbatim>\<open>UINT\<close> in the row of \<^verbatim>\<open>INT\<close> is
  the only numeric tag in the strict-less set of another numeric tag.
\<close>

theorem relation_numeric:
  assumes "numeric a" "numeric b" "a \<noteq> b"
  shows "relation a b =
       (if a = INT_tag \<and> b = UINT then Less
        else if a = UINT \<and> b = INT_tag then Greater
        else CompareDifferentTypes) \<and>
     (strict_less_aux a b \<longleftrightarrow> a = INT_tag \<and> b = UINT)"
proof -
  from assms have "a \<in> {UINT, INT_tag, FLOAT, DECIMAL}" "b \<in> {UINT, INT_tag, FLOAT, DECIMAL}"
    by (simp_all add: numeric_def)
  then show ?thesis
    using assms(3)
    by (elim insertE emptyE; simp add: relation_def not_supported_def lookup_defs tag_defs)
qed

text \<open>The amended statement at \<^verbatim>\<open>FLOAT\<close> and \<^verbatim>\<open>DECIMAL\<close>, and at \<^verbatim>\<open>INT\<close> and \<^verbatim>\<open>UINT\<close>.\<close>

theorem relation_numeric_witness:
  "numeric FLOAT \<and> numeric DECIMAL \<and> FLOAT \<noteq> DECIMAL \<and>
   relation FLOAT DECIMAL = CompareDifferentTypes \<and> \<not> strict_less_aux FLOAT DECIMAL \<and>
   numeric INT_tag \<and> numeric UINT \<and> INT_tag \<noteq> UINT \<and> relation INT_tag UINT = Less"
proof -
  have h: "numeric FLOAT" "numeric DECIMAL" "FLOAT \<noteq> DECIMAL"
    and k: "numeric INT_tag" "numeric UINT" "INT_tag \<noteq> UINT"
    by (simp_all add: numeric_def tag_defs)
  from relation_numeric [OF h] relation_numeric [OF k] show ?thesis
    using h k by (simp add: tag_defs)
qed

section \<open>Literal expectations\<close>

text \<open>
  C2, as stated: \<^verbatim>\<open>relation(STRUCT, LIST)\<close> is \<^verbatim>\<open>Greater\<close>. The function does not get
  as far as the table: \<^verbatim>\<open>STRUCT\<close> is not supported.
\<close>

theorem relation_STRUCT_LIST_counterexample:
  "relation STRUCT LIST \<noteq> Greater"
  by (simp add: relation_def not_supported_def relation_defs)

text \<open>
  C2, amended: \<^verbatim>\<open>relation(STRUCT, LIST)\<close> is \<^verbatim>\<open>Invalid\<close>
  (\<^verbatim>\<open>unsupportedRelation\<close>), because \<^verbatim>\<open>STRUCT\<close> is not supported; the table alone,
  in which \<^verbatim>\<open>STRUCT\<close> is in the row of \<^verbatim>\<open>LIST\<close>, would order the two.
\<close>

theorem relation_STRUCT_LIST:
  "not_supported STRUCT \<and> strict_less_aux LIST STRUCT \<and> relation STRUCT LIST = Invalid"
  by (simp add: relation_def not_supported_def lookup_defs tag_defs)

section \<open>A tag against itself\<close>

text \<open>
  C3, as stated: \<^verbatim>\<open>relation(t, t)\<close> is \<^verbatim>\<open>CompareSameType\<close> for every tag from 0 to 15.
  It is \<^verbatim>\<open>Invalid\<close> for \<^verbatim>\<open>SYMBOL\<close>, since the test for unsupported tags comes first.
\<close>

theorem relation_reflexive_counterexample:
  "0 \<le> SYMBOL \<and> SYMBOL \<le> 15 \<and> relation SYMBOL SYMBOL = Invalid \<and>
   relation SYMBOL SYMBOL \<noteq> CompareSameType"
  by (simp add: relation_def not_supported_def relation_defs SYMBOL_def)

text \<open>
  C3, amended: for every tag \<open>t\<close> from 0 to 15, \<^verbatim>\<open>relation(t, t)\<close> is
  \<^verbatim>\<open>CompareSameType\<close> when \<open>t\<close> is none of \<^verbatim>\<open>SYMBOL\<close>, \<^verbatim>\<open>SEXP\<close>, \<^verbatim>\<open>STRUCT\<close>,
  \<^verbatim>\<open>ANNOTATION\<close>, \<^verbatim>\<open>RESERVED\<close>, and \<^verbatim>\<open>Invalid\<close> when it is one of them.
\<close>

theorem relation_reflexive:
  "0 \<le> t \<Longrightarrow> t \<le> 15 \<Longrightarrow>
     relation t t =
       (if t \<in> {SYMBOL, SEXP, STRUCT, ANNOTATION, RESERVED} then Invalid else CompareSameType)"
  by (simp add: relation_def not_supported_def)

text \<open>The amended statement at \<^verbatim>\<open>STRING\<close>, a supported tag.\<close>

theorem relation_reflexive_witness:
  "0 \<le> STRING \<and> STRING \<le> 15 \<and> STRING \<notin> {SYMBOL, SEXP, STRUCT, ANNOTATION, RESERVED} \<and>
   relation STRING STRING = CompareSameType"
proof -
  have h: "0 \<le> STRING" "STRING \<le> 15" by (simp_all add: STRING_def)
  have n: "STRING \<notin> {SYMBOL, SEXP, STRUCT, ANNOTATION, RESERVED}" by (simp add: tag_defs)
  from relation_reflexive [OF h] n show ?thesis using h by simp
qed

section \<open>Asymmetry of the table\<close>

text \<open>
  C4 asks that no pair of tags is in the table in both directions. The row of
  \<^verbatim>\<open>STRING\<close> lists \<^verbatim>\<open>STRING\<close> itself, so the pair (\<^verbatim>\<open>STRING\<close>, \<^verbatim>\<open>STRING\<close>) is:
  \<^verbatim>\<open>strict_less_aux(STRING, STRING)\<close> is true. Lemma \<open>strict_less_aux_asym\<close> above shows
  that this is the only such pair.
\<close>

theorem strict_less_aux_STRING_STRING:
  "strict_less_aux STRING STRING"
  by (simp add: lookup_defs tag_defs)

section \<open>Unsupported tags\<close>

text \<open>
  C5: for tags \<open>a\<close> and \<open>b\<close> from 0 to 15, if one of them is \<^verbatim>\<open>SYMBOL\<close>, \<^verbatim>\<open>SEXP\<close>,
  \<^verbatim>\<open>STRUCT\<close>, \<^verbatim>\<open>ANNOTATION\<close> or \<^verbatim>\<open>RESERVED\<close>, then \<^verbatim>\<open>relation(a, b)\<close> is
  \<^verbatim>\<open>Invalid\<close>. Nothing is assumed about \<open>a = b\<close> or about the table, so the test wins
  over the same-type test and over both lookups.
\<close>

theorem relation_unsupported_dominates:
  "0 \<le> a \<Longrightarrow> a \<le> 15 \<Longrightarrow> 0 \<le> b \<Longrightarrow> b \<le> 15 \<Longrightarrow>
   a \<in> {SYMBOL, SEXP, STRUCT, ANNOTATION, RESERVED} \<or>
   b \<in> {SYMBOL, SEXP, STRUCT, ANNOTATION, RESERVED} \<Longrightarrow>
   relation a b = Invalid"
  by (rule relation_unsupported) (simp add: not_supported_def)

text \<open>
  C5 at three pairs: one the table would order (\<^verbatim>\<open>SEXP\<close> before \<^verbatim>\<open>STRUCT\<close>), one of
  equal tags, and one with the unsupported tag on the right only.
\<close>

theorem relation_unsupported_dominates_witness:
  "0 \<le> SEXP \<and> SEXP \<le> 15 \<and> 0 \<le> STRUCT \<and> STRUCT \<le> 15 \<and>
   strict_less_aux SEXP STRUCT \<and> relation SEXP STRUCT = Invalid \<and>
   relation SYMBOL SYMBOL = Invalid \<and> relation BOOL SYMBOL = Invalid"
proof -
  have r: "0 \<le> SEXP" "SEXP \<le> 15" "0 \<le> STRUCT" "STRUCT \<le> 15"
          "0 \<le> SYMBOL" "SYMBOL \<le> 15" "0 \<le> BOOL" "BOOL \<le> 15"
    by (simp_all add: tag_defs)
  have "relation SEXP STRUCT = Invalid"
    using relation_unsupported_dominates [of SEXP STRUCT] r by simp
  moreover have "relation SYMBOL SYMBOL = Invalid"
    using relation_unsupported_dominates [of SYMBOL SYMBOL] r by simp
  moreover have "relation BOOL SYMBOL = Invalid"
    using relation_unsupported_dominates [of BOOL SYMBOL] r by simp
  moreover have "strict_less_aux SEXP STRUCT"
    by (simp add: lookup_defs tag_defs)
  ultimately show ?thesis using r by simp
qed

section \<open>The two directions of a pair\<close>

text \<open>
  C6: for two different supported tags \<open>a\<close> and \<open>b\<close>, \<^verbatim>\<open>relation(a, b)\<close> is \<^verbatim>\<open>Less\<close>
  exactly when \<^verbatim>\<open>relation(b, a)\<close> is \<^verbatim>\<open>Greater\<close>. The grid is consistent beyond
  that: for any two tags, \<^verbatim>\<open>Greater\<close> at \<open>(a, b)\<close> faces \<^verbatim>\<open>Less\<close> at \<open>(b, a)\<close>, and
  \<^verbatim>\<open>CompareSameType\<close>, \<^verbatim>\<open>CompareDifferentTypes\<close> and \<^verbatim>\<open>Invalid\<close> face themselves.
\<close>

theorem relation_inverse:
  "(a \<noteq> b \<and> \<not> not_supported a \<and> \<not> not_supported b \<longrightarrow>
      (relation a b = Less \<longleftrightarrow> relation b a = Greater)) \<and>
   (relation a b = Greater \<longleftrightarrow> relation b a = Less) \<and>
   (relation a b = CompareSameType \<longleftrightarrow> relation b a = CompareSameType) \<and>
   (relation a b = CompareDifferentTypes \<longleftrightarrow> relation b a = CompareDifferentTypes) \<and>
   (relation a b = Invalid \<longleftrightarrow> relation b a = Invalid)"
  using strict_less_aux_asym [of a b] strict_less_aux_asym [of b a]
  by (auto simp: relation_Less_iff relation_Greater_iff relation_Invalid_iff
      relation_CompareSameType_iff relation_CompareDifferentTypes_iff)

text \<open>C6 at \<^verbatim>\<open>BOOL\<close> and \<^verbatim>\<open>UINT\<close>, where the first direction is \<^verbatim>\<open>Less\<close>.\<close>

theorem relation_inverse_witness:
  "BOOL \<noteq> UINT \<and> \<not> not_supported BOOL \<and> \<not> not_supported UINT \<and>
   relation BOOL UINT = Less \<and> relation UINT BOOL = Greater"
proof -
  have h: "BOOL \<noteq> UINT" "\<not> not_supported BOOL" "\<not> not_supported UINT"
    by (simp_all add: not_supported_def tag_defs)
  have l: "relation BOOL UINT = Less"
    by (simp add: relation_def not_supported_def lookup_defs tag_defs)
  from relation_inverse [of BOOL UINT] h l show ?thesis by simp
qed

section \<open>The flattened grid\<close>

text \<open>
  C7: \<^verbatim>\<open>relations()\<close> yields exactly 256 values, and for \<open>type1\<close> and \<open>type2\<close> from 0 to
  15 the value at index \<open>type1 * 16 + type2\<close> is \<^verbatim>\<open>relation(type1, type2)\<close>: the outer
  loop is over \<open>type1\<close>, the inner one over \<open>type2\<close>.
\<close>

theorem relations_grid:
  "length relations = 256 \<and>
   (\<forall>type1 type2. 0 \<le> type1 \<and> type1 \<le> 15 \<and> 0 \<le> type2 \<and> type2 \<le> 15 \<longrightarrow>
      relations ! nat (type1 * 16 + type2) = relation type1 type2)"
  by (simp add: length_relations relations_nth)

text \<open>C7 at row \<^verbatim>\<open>BOOL\<close>, column \<^verbatim>\<open>UINT\<close>: index 18 holds \<^verbatim>\<open>Less\<close>.\<close>

theorem relations_grid_witness:
  "0 \<le> BOOL \<and> BOOL \<le> 15 \<and> 0 \<le> UINT \<and> UINT \<le> 15 \<and> nat (BOOL * 16 + UINT) = 18 \<and>
   length relations = 256 \<and> relations ! 18 = relation BOOL UINT \<and> relations ! 18 = Less"
proof -
  have h: "0 \<le> BOOL \<and> BOOL \<le> 15 \<and> 0 \<le> UINT \<and> UINT \<le> 15"
    and i: "nat (BOOL * 16 + UINT) = 18"
    by (simp_all add: tag_defs)
  have l: "relation BOOL UINT = Less"
    by (simp add: relation_def not_supported_def lookup_defs tag_defs)
  from relations_grid have "length relations = 256"
    and "relations ! nat (BOOL * 16 + UINT) = relation BOOL UINT"
    using h by blast+
  with h i l show ?thesis by simp
qed

section \<open>Totality\<close>

text \<open>
  C8: for \<open>a\<close> and \<open>b\<close> from 0 to 15, \<^verbatim>\<open>relation(a, b)\<close> is one of the five relation
  names; and for a tag without a row in the table, where the subscript raises
  \<^verbatim>\<open>KeyError\<close>, \<^verbatim>\<open>strict_less_aux\<close> returns \<^verbatim>\<open>False\<close>. \<^verbatim>\<open>KeyError\<close> is the only
  exception the code can raise, and \<^verbatim>\<open>strict_less_aux\<close> handles it, so \<^verbatim>\<open>relation\<close>
  is a function without an error result.
\<close>

theorem relation_total:
  "(0 \<le> a \<and> a \<le> 15 \<and> 0 \<le> b \<and> b \<le> 15 \<longrightarrow>
      relation a b \<in> {Less, Greater, CompareSameType, CompareDifferentTypes, Invalid}) \<and>
   (strict_less_lookup type1 = None \<longrightarrow>
      strict_less_getitem type1 = Inl KeyError \<and> strict_less_aux type1 type2 = False)"
  by (simp add: relation_def strict_less_aux_def strict_less_getitem_def)

text \<open>C8 at \<^verbatim>\<open>NULL\<close>, which has no row, against \<^verbatim>\<open>BOOL\<close>.\<close>

theorem relation_total_witness:
  "0 \<le> NULL \<and> NULL \<le> 15 \<and> 0 \<le> BOOL \<and> BOOL \<le> 15 \<and>
   relation NULL BOOL \<in> {Less, Greater, CompareSameType, CompareDifferentTypes, Invalid} \<and>
   strict_less_lookup NULL = None \<and> strict_less_getitem NULL = Inl KeyError \<and>
   \<not> strict_less_aux NULL BOOL"
proof -
  have h: "0 \<le> NULL \<and> NULL \<le> 15 \<and> 0 \<le> BOOL \<and> BOOL \<le> 15"
    by (simp add: tag_defs)
  have n: "strict_less_lookup NULL = None"
    by (simp add: strict_less_lookup_def tag_defs)
  from relation_total [of NULL BOOL NULL BOOL] h n show ?thesis by simp
qed

section \<open>The table is not closed under chaining\<close>

text \<open>
  C9: \<^verbatim>\<open>relation(NULL, BOOL)\<close> is not \<^verbatim>\<open>Less\<close> but \<^verbatim>\<open>CompareDifferentTypes\<close>:
  \<^verbatim>\<open>NULL\<close> has no row in the table and is in no row's set.
\<close>

theorem relation_NULL_BOOL:
  "relation NULL BOOL \<noteq> Less \<and> relation NULL BOOL = CompareDifferentTypes \<and>
   strict_less_lookup NULL = None \<and>
   (\<forall>t s. strict_less_lookup t = Some s \<longrightarrow> NULL \<notin> s)"
proof -
  have none: "strict_less_lookup NULL = None"
    by (simp add: strict_less_lookup_def tag_defs)
  have absent: "\<forall>t s. strict_less_lookup t = Some s \<longrightarrow> NULL \<notin> s"
    by (auto simp: strict_less_lookup_def tag_defs split: if_splits)
  have "relation NULL BOOL = CompareDifferentTypes"
    by (simp add: relation_def not_supported_def lookup_defs tag_defs)
  with none absent show ?thesis by (simp add: relation_defs)
qed

text \<open>C9 at the row of \<^verbatim>\<open>LIST\<close>, whose set is \<^verbatim>\<open>{STRUCT}\<close>.\<close>

theorem relation_NULL_BOOL_witness:
  "strict_less_lookup LIST = Some {STRUCT} \<and> NULL \<notin> {STRUCT}"
proof -
  have e: "strict_less_lookup LIST = Some {STRUCT}"
    by (simp add: strict_less_lookup_def tag_defs)
  from relation_NULL_BOOL e have "NULL \<notin> {STRUCT}" by blast
  with e show ?thesis by simp
qed

section \<open>The diagonal\<close>

text \<open>
  C10: for every tag \<open>t\<close> from 0 to 15, \<^verbatim>\<open>relation(t, t)\<close> is \<^verbatim>\<open>CompareSameType\<close> or
  \<^verbatim>\<open>Invalid\<close>, never \<^verbatim>\<open>Less\<close> or \<^verbatim>\<open>Greater\<close>. In particular \<^verbatim>\<open>STRING\<close>, which is in
  its own row of the table, relates to itself as \<^verbatim>\<open>CompareSameType\<close>.
\<close>

theorem relation_diagonal:
  "0 \<le> t \<Longrightarrow> t \<le> 15 \<Longrightarrow>
     relation t t \<in> {CompareSameType, Invalid} \<and> relation t t \<noteq> Less \<and>
     relation t t \<noteq> Greater \<and>
     strict_less_aux STRING STRING \<and> relation STRING STRING = CompareSameType"
  by (auto simp: relation_def relation_defs not_supported_def lookup_defs tag_defs)

text \<open>C10 at \<^verbatim>\<open>STRING\<close> itself.\<close>

theorem relation_diagonal_witness:
  "0 \<le> STRING \<and> STRING \<le> 15 \<and> relation STRING STRING \<in> {CompareSameType, Invalid} \<and>
   relation STRING STRING \<noteq> Less \<and> relation STRING STRING \<noteq> Greater \<and>
   strict_less_aux STRING STRING \<and> relation STRING STRING = CompareSameType"
proof -
  have h: "0 \<le> STRING" "STRING \<le> 15" by (simp_all add: STRING_def)
  from relation_diagonal [OF h] h show ?thesis by (simp add: relation_defs)
qed

end
